theory Spec2Isabelle
  imports Main "HOL-Library.Sublist"
begin

section \<open>The Twitter connector: data model\<close>

text \<open>
  The development embeds \<^verbatim>\<open>src/actions/tweet/connector/twitterAPI.py\<close>, the class
  \<^verbatim>\<open>TweetAPIConnector\<close> with its constructor \<^verbatim>\<open>__init__\<close> and its coroutine
  \<^verbatim>\<open>connect\<close>.

  Python values that the two methods touch: the result of \<^verbatim>\<open>os.getenv\<close> is a
  \<open>string option\<close> (\<open>None\<close> when the variable is unset); the data of a vendor
  response is a JSON value or \<^verbatim>\<open>None\<close>.
\<close>

datatype pyval = PyNone | PyStr string | PyDict "(string \<times> pyval) list"

text \<open>
  Exceptions are values: a class and the text that \<^verbatim>\<open>str(e)\<close> gives.
  \<open>TweepySub n\<close> is a subclass of \<^verbatim>\<open>tweepy.TweepyException\<close> (such as
  \<^verbatim>\<open>Forbidden\<close>), \<open>OtherException n\<close> any further subclass of \<^verbatim>\<open>Exception\<close>, and
  \<open>NonException n\<close> a class that derives from \<^verbatim>\<open>BaseException\<close> only (such as
  \<^verbatim>\<open>KeyboardInterrupt\<close>).
\<close>

datatype exn_class =
    ValueError | NameError | KeyError | TypeError
  | TweepyException | TweepySub string
  | OtherException string | NonException string

datatype exn = Exn (cls: exn_class) (msg: string)

fun is_tweepy :: "exn_class \<Rightarrow> bool" where
  "is_tweepy TweepyException = True"
| "is_tweepy (TweepySub n) = True"
| "is_tweepy c = False"

fun is_exception :: "exn_class \<Rightarrow> bool" where
  "is_exception (NonException n) = False"
| "is_exception c = True"

datatype level = INFO | ERROR

text \<open>
  \<^verbatim>\<open>tweepy.Client\<close> is built from the four values exactly as \<^verbatim>\<open>os.getenv\<close> returned
  them (lines 56 to 61); its constructor only stores them.
\<close>

record client =
  consumer_key :: "string option"
  consumer_secret :: "string option"
  access_token :: "string option"
  access_token_secret :: "string option"

text \<open>
  The ambient state of the process: the environment \<^verbatim>\<open>os.environ\<close>; the variables
  that the \<^verbatim>\<open>.env\<close> file read by \<^verbatim>\<open>load_dotenv\<close> defines; the list
  \<^verbatim>\<open>warnings.filters\<close> (an action and a category each) and the counter of its
  mutations, whose every change invalidates the warning registries of the modules;
  the names of the loaded modules, \<^verbatim>\<open>sys.modules\<close>, and the modules that a first
  import of \<^verbatim>\<open>tweepy\<close> loads beside \<^verbatim>\<open>tweepy\<close> itself; the lines given to the
  \<^verbatim>\<open>logging\<close> module; and the state of the vendor's service, which is the list of
  the requests to create a tweet that it has received (the client and the text of
  each, oldest first). Only the vendor's \<^verbatim>\<open>create_tweet\<close> acts on that list.
\<close>

record world =
  environ :: "string \<rightharpoonup> string"
  dotenv_file :: "string \<rightharpoonup> string"
  filters :: "(string \<times> string) list"
  filters_version :: nat
  modules :: "string set"
  tweepy_loads :: "string set"
  log :: "(level \<times> string) list"
  calls :: "(client \<times> string) list"

text \<open>
  The adapter object: what \<^verbatim>\<open>ActionConnector.__init__\<close> made of the configuration
  (that class is not among the sources; its result is a parameter of the constructor
  below), and the attribute \<^verbatim>\<open>self.client\<close>.
\<close>

record 'b adapter =
  base :: 'b
  client :: client

section \<open>Construction\<close>

text \<open>
  \<^verbatim>\<open>load_dotenv()\<close> with its default \<^verbatim>\<open>override=False\<close>: every variable of the
  \<^verbatim>\<open>.env\<close> file that the environment does not have yet is set; a variable that is
  already set keeps its value.
\<close>

definition load_dotenv :: "world \<Rightarrow> world" where
  "load_dotenv w = w\<lparr>environ := dotenv_file w ++ environ w\<rparr>"

text \<open>
  The \<^verbatim>\<open>warnings\<close> module. \<^verbatim>\<open>_filters_mutated()\<close> advances the counter.
  \<^verbatim>\<open>catch_warnings().__enter__\<close> keeps the filter list it finds, installs a copy of it
  and counts a mutation; \<^verbatim>\<open>__exit__\<close> puts the kept list back and counts another.
  \<^verbatim>\<open>warnings.filterwarnings(action, category=c)\<close> puts the entry at the front of the
  filter list, after removing an equal entry, and counts a mutation.
\<close>

definition filters_mutated :: "world \<Rightarrow> world" where
  "filters_mutated w = w\<lparr>filters_version := Suc (filters_version w)\<rparr>"

definition catch_warnings_enter :: "world \<Rightarrow> world" where
  "catch_warnings_enter w = filters_mutated w"

definition catch_warnings_exit :: "(string \<times> string) list \<Rightarrow> world \<Rightarrow> world" where
  "catch_warnings_exit saved w = filters_mutated (w\<lparr>filters := saved\<rparr>)"

definition filterwarnings :: "string \<Rightarrow> string \<Rightarrow> world \<Rightarrow> world" where
  "filterwarnings a c w = filters_mutated (w\<lparr>filters := (a, c) # remove1 (a, c) (filters w)\<rparr>)"

text \<open>
  \<^verbatim>\<open>import tweepy\<close>: a module that is loaded already is not loaded again; otherwise
  \<^verbatim>\<open>tweepy\<close> and the modules it brings with it enter \<^verbatim>\<open>sys.modules\<close>.
\<close>

definition import_tweepy :: "world \<Rightarrow> world" where
  "import_tweepy w =
     (if ''tweepy'' \<in> modules w then w
      else w\<lparr>modules := insert ''tweepy'' (modules w \<union> tweepy_loads w)\<rparr>)"

definition getenv :: "world \<Rightarrow> string \<Rightarrow> string option" where
  "getenv w k = environ w k"

text \<open>Truth value of an optional string: \<^verbatim>\<open>None\<close> and \<^verbatim>\<open>""\<close> are false.\<close>

fun truthy :: "string option \<Rightarrow> bool" where
  "truthy None = False"
| "truthy (Some s) = (s \<noteq> [])"

text \<open>\<^verbatim>\<open>sep.join(xs)\<close>.\<close>

fun join :: "string \<Rightarrow> string list \<Rightarrow> string" where
  "join sep [] = []"
| "join sep [x] = x"
| "join sep (x # y # ys) = x @ sep @ join sep (y # ys)"

text \<open>
  Lines 43 to 51: the list \<^verbatim>\<open>missing_vars\<close>, built by four tests in this order, each
  appending one name.
\<close>

definition missing_vars ::
  "string option \<Rightarrow> string option \<Rightarrow> string option \<Rightarrow> string option \<Rightarrow> string list" where
  "missing_vars ck cs at ats =
     (let m0 = [];
          m1 = (if \<not> truthy ck then m0 @ [''TWITTER_API_KEY''] else m0);
          m2 = (if \<not> truthy cs then m1 @ [''TWITTER_API_SECRET''] else m1);
          m3 = (if \<not> truthy at then m2 @ [''TWITTER_ACCESS_TOKEN''] else m2);
          m4 = (if \<not> truthy ats then m3 @ [''TWITTER_ACCESS_TOKEN_SECRET''] else m3)
      in m4)"

text \<open>
  \<^verbatim>\<open>__init__\<close> (lines 18 to 61). The result of the base class initialiser is the
  parameter \<open>super_init\<close>. The block of \<^verbatim>\<open>warnings.catch_warnings()\<close> is left by the
  \<^verbatim>\<open>raise\<close> as well as at its end, and \<^verbatim>\<open>__exit__\<close> runs in both cases.
  \<^verbatim>\<open>import tweepy\<close> in line 34 loads the module and binds the name \<^verbatim>\<open>tweepy\<close> in the
  scope of \<^verbatim>\<open>__init__\<close> only. A constructor that raises gives no object to its caller: the
  result is \<open>Inl\<close> of the exception. The library calls of the constructor (the
  base initialiser, \<^verbatim>\<open>load_dotenv\<close>, the import, and \<^verbatim>\<open>tweepy.Client\<close>) return
  normally; the only \<^verbatim>\<open>raise\<close> is the one of line 52.
\<close>

definition init :: "('cfg \<Rightarrow> 'b) \<Rightarrow> 'cfg \<Rightarrow> world \<Rightarrow> world \<times> (exn + 'b adapter)" where
  "init super_init config w0 =
     (let b = super_init config;
          w1 = load_dotenv w0;
          saved = filters w1;
          w2 = catch_warnings_enter w1;
          w3 = filterwarnings ''ignore'' ''SyntaxWarning'' w2;
          w4 = import_tweepy w3;
          ck = getenv w4 ''TWITTER_API_KEY'';
          cs = getenv w4 ''TWITTER_API_SECRET'';
          at = getenv w4 ''TWITTER_ACCESS_TOKEN'';
          ats = getenv w4 ''TWITTER_ACCESS_TOKEN_SECRET''
      in if \<not> list_all truthy [ck, cs, at, ats] then
           (catch_warnings_exit saved w4,
            Inl (Exn ValueError
              (''Missing required Twitter API credentials: '' @ join '', '' (missing_vars ck cs at ats))))
         else
           (catch_warnings_exit saved w4,
            Inr \<lparr>base = b,
                 client = \<lparr>consumer_key = ck, consumer_secret = cs,
                            access_token = at, access_token_secret = ats\<rparr>\<rparr>))"

section \<open>Sending a tweet\<close>

text \<open>
  \<^verbatim>\<open>TweetInput\<close> (declared in \<^verbatim>\<open>actions.tweet.interface\<close>, not among the sources):
  the only attribute that \<^verbatim>\<open>connect\<close> reads is \<^verbatim>\<open>action\<close>, the text of the tweet.
\<close>

record tweet_input =
  action :: string

text \<open>The vendor's response object; \<^verbatim>\<open>connect\<close> reads its attribute \<^verbatim>\<open>data\<close>.\<close>

record response =
  data :: pyval

text \<open>
  What lies outside the repository is a parameter of \<^verbatim>\<open>connect\<close>: Python's built-in
  \<^verbatim>\<open>repr\<close>, and the vendor call \<^verbatim>\<open>client.create_tweet(text=t)\<close>. One application
  of \<open>create_tweet\<close> is one call: it takes the state of the vendor's service to a new
  state, and either raises or returns a response.
\<close>

record externals =
  py_repr :: "pyval \<Rightarrow> string"
  create_tweet ::
    "client \<Rightarrow> string \<Rightarrow> (client \<times> string) list \<Rightarrow> (client \<times> string) list \<times> (exn + response)"

text \<open>
  Formatting a value inside an f-string is \<^verbatim>\<open>str\<close> of it: a string stands for
  itself, \<^verbatim>\<open>None\<close> and a dict are printed as \<^verbatim>\<open>repr\<close> prints them.
\<close>

fun py_str :: "externals \<Rightarrow> pyval \<Rightarrow> string" where
  "py_str X (PyStr s) = s"
| "py_str X v = py_repr X v"

text \<open>
  \<^verbatim>\<open>v[k]\<close> for a string key: a dict (here a list of bindings, the first binding of a
  key being the one in force) gives the value or raises \<^verbatim>\<open>KeyError(k)\<close>, whose text
  is \<^verbatim>\<open>repr(k)\<close>; \<^verbatim>\<open>None\<close> and a string (wording of Python 3.11 and later) raise
  \<^verbatim>\<open>TypeError\<close>.
\<close>

fun subscript :: "externals \<Rightarrow> pyval \<Rightarrow> string \<Rightarrow> exn + pyval" where
  "subscript X (PyDict d) k =
     (case map_of d k of
        None \<Rightarrow> Inl (Exn KeyError (py_repr X (PyStr k)))
      | Some v \<Rightarrow> Inr v)"
| "subscript X PyNone k =
     Inl (Exn TypeError ([CHR 0x27] @ ''NoneType'' @ [CHR 0x27] @ '' object is not subscriptable''))"
| "subscript X (PyStr s) k =
     Inl (Exn TypeError (''string indices must be integers, not '' @ [CHR 0x27] @ ''str'' @ [CHR 0x27]))"

definition logging_info :: "string \<Rightarrow> world \<Rightarrow> world" where
  "logging_info s w = w\<lparr>log := log w @ [(INFO, s)]\<rparr>"

definition logging_error :: "string \<Rightarrow> world \<Rightarrow> world" where
  "logging_error s w = w\<lparr>log := log w @ [(ERROR, s)]\<rparr>"

text \<open>
  The body of the \<^verbatim>\<open>try\<close> statement (lines 75 to 83). The one call of
  \<^verbatim>\<open>create_tweet\<close> in line 80 is the one application of the vendor's function, and
  the state of the service after it is the one the function gives. A call of
  \<^verbatim>\<open>logging.info\<close> or \<^verbatim>\<open>logging.error\<close> adds its line to the log and returns;
  the body raises where the vendor call raises and where \<^verbatim>\<open>response.data["id"]\<close>
  does.
\<close>

definition try_body :: "externals \<Rightarrow> 'b adapter \<Rightarrow> tweet_input \<Rightarrow> world \<Rightarrow> world \<times> (exn + unit)" where
  "try_body X self output_interface w0 =
     (let tweet_to_make = PyDict [(''action'', PyStr (action output_interface))];
          w1 = logging_info (''SendThisToTwitterAPI: '' @ py_str X tweet_to_make) w0;
          (served, outcome) =
             create_tweet X (client self) (action output_interface) (calls w1);
          w2 = w1\<lparr>calls := served\<rparr>
      in case outcome of
           Inl e \<Rightarrow> (w2, Inl e)
         | Inr resp \<Rightarrow>
             (case subscript X (data resp) ''id'' of
                Inl e \<Rightarrow> (w2, Inl e)
              | Inr tweet_id \<Rightarrow>
                  (let tweet_url = ''https://twitter.com/user/status/'' @ py_str X tweet_id
                   in (logging_info (''Tweet sent successfully! URL: '' @ tweet_url) w2, Inr ()))))"

text \<open>
  The names that the module binds at its top level (lines 1 to 11). \<^verbatim>\<open>tweepy\<close> is
  not one of them: the only \<^verbatim>\<open>import tweepy\<close> of the file is the one inside
  \<^verbatim>\<open>__init__\<close>, which binds a local name of that method.
\<close>

definition module_globals :: "string list" where
  "module_globals =
     [''logging'', ''os'', ''warnings'', ''load_dotenv'',
      ''ActionConfig'', ''ActionConnector'', ''TweetInput'', ''TweetAPIConnector'']"

text \<open>
  The two \<^verbatim>\<open>except\<close> clauses (lines 85 to 90), reached with the exception \<open>e\<close> that
  the body raised. \<^verbatim>\<open>connect\<close> has no local name \<^verbatim>\<open>tweepy\<close>, so the expression
  \<^verbatim>\<open>tweepy.TweepyException\<close> of the first clause looks the name up among the globals
  \<open>g\<close> of the module. Python evaluates that expression when it searches a handler for
  \<open>e\<close>; if the evaluation raises, the search is abandoned and the new exception leaves
  the whole \<^verbatim>\<open>try\<close> statement, no clause of it being entered. The bare \<^verbatim>\<open>raise\<close> of
  a clause raises \<open>e\<close> again.
\<close>

definition handlers :: "string list \<Rightarrow> exn \<Rightarrow> world \<Rightarrow> world \<times> (exn + unit)" where
  "handlers g e w =
     (if ''tweepy'' \<notin> set g then
        (w, Inl (Exn NameError ''name 'tweepy' is not defined''))
      else if is_tweepy (cls e) then
        (logging_error (''Twitter API error while sending tweet: '' @ msg e) w, Inl e)
      else if is_exception (cls e) then
        (logging_error (''Unexpected error while sending tweet: '' @ msg e) w, Inl e)
      else (w, Inl e))"

text \<open>
  \<^verbatim>\<open>connect\<close> (lines 63 to 90), run in a module whose global names are \<open>g\<close>; the
  program as it stands is \<open>connect module_globals\<close>. \<open>Inr ()\<close> is the return of
  \<^verbatim>\<open>None\<close>. The method assigns no attribute of \<^verbatim>\<open>self\<close>.
\<close>

definition connect ::
  "string list \<Rightarrow> externals \<Rightarrow> 'b adapter \<Rightarrow> tweet_input \<Rightarrow> world \<Rightarrow> world \<times> (exn + unit)" where
  "connect g X self output_interface w =
     (case try_body X self output_interface w of
        (w', Inr u) \<Rightarrow> (w', Inr u)
      | (w', Inl e) \<Rightarrow> handlers g e w')"

section \<open>The life of an adapter\<close>

text \<open>
  An adapter object exists once \<^verbatim>\<open>__init__\<close> has returned, and \<^verbatim>\<open>connect\<close> is a
  method of such an object. \<open>Ready a en\<close> carries, beside the object, the environment
  as it was when the constructor read it. The rest of the process may change the world
  at any time (\<open>Ambient\<close>).
\<close>

datatype 'b state = Uninitialized | Ready "'b adapter" "string \<rightharpoonup> string"

datatype 'cfg event = Construct 'cfg | Send tweet_input | Ambient

inductive step ::
  "('cfg \<Rightarrow> 'b) \<Rightarrow> externals \<Rightarrow> world \<Rightarrow> 'b state \<Rightarrow> 'cfg event \<Rightarrow> world \<Rightarrow> 'b state \<Rightarrow> bool"
  for si :: "'cfg \<Rightarrow> 'b" and X :: externals where
  construct_ok:
    "init si cfg w = (w', Inr a) \<Longrightarrow>
       step si X w Uninitialized (Construct cfg) w' (Ready a (environ w'))"
| construct_failed:
    "init si cfg w = (w', Inl e) \<Longrightarrow>
       step si X w Uninitialized (Construct cfg) w' Uninitialized"
| send:
    "connect module_globals X a oi w = (w', r) \<Longrightarrow>
       step si X w (Ready a en) (Send oi) w' (Ready a en)"
| ambient:
    "step si X w s Ambient w' s"

inductive reachable :: "('cfg \<Rightarrow> 'b) \<Rightarrow> externals \<Rightarrow> world \<Rightarrow> 'b state \<Rightarrow> bool"
  for si :: "'cfg \<Rightarrow> 'b" and X :: externals where
  initial: "reachable si X w Uninitialized"
| after: "reachable si X w s \<Longrightarrow> step si X w s ev w' s' \<Longrightarrow> reachable si X w' s'"

section \<open>The notions of the specification\<close>

text \<open>
  The four required credentials, those of them that an environment lacks (unset or
  empty), and the client that holds the four values of an environment.
\<close>

definition required_credentials :: "string list" where
  "required_credentials =
     [''TWITTER_API_KEY'', ''TWITTER_API_SECRET'',
      ''TWITTER_ACCESS_TOKEN'', ''TWITTER_ACCESS_TOKEN_SECRET'']"

definition absent :: "(string \<rightharpoonup> string) \<Rightarrow> string list" where
  "absent e = filter (\<lambda>n. \<not> truthy (e n)) required_credentials"

definition client_of :: "(string \<rightharpoonup> string) \<Rightarrow> client" where
  "client_of e =
     \<lparr>consumer_key = e ''TWITTER_API_KEY'', consumer_secret = e ''TWITTER_API_SECRET'',
      access_token = e ''TWITTER_ACCESS_TOKEN'',
      access_token_secret = e ''TWITTER_ACCESS_TOKEN_SECRET''\<rparr>"

text \<open>
  The invariant of the life cycle: a ready adapter holds a client made of the four
  values read at construction, each of which was set and not empty.
\<close>

fun configured :: "'b state \<Rightarrow> bool" where
  "configured Uninitialized = True"
| "configured (Ready a en) =
     (client a = client_of en \<and>
      (\<forall>n \<in> set required_credentials. \<exists>v. en n = Some v \<and> v \<noteq> []))"

section \<open>Values for the examples\<close>

text \<open>
  \<open>repr_plain\<close> is \<^verbatim>\<open>repr\<close> on the values of the examples: strings of printable
  ASCII without quotes or backslashes, \<^verbatim>\<open>None\<close>, and dicts of these. \<open>vendor r\<close> is
  a vendor whose service keeps every request it receives and whose \<^verbatim>\<open>create_tweet\<close>
  has the outcome \<open>r\<close>.
\<close>

fun repr_plain :: "pyval \<Rightarrow> string" where
  "repr_plain PyNone = ''None''"
| "repr_plain (PyStr s) = [CHR 0x27] @ s @ [CHR 0x27]"
| "repr_plain (PyDict d) =
     ''{'' @ join '', '' (map (\<lambda>(k, v). [CHR 0x27] @ k @ [CHR 0x27] @ '': '' @ repr_plain v) d) @ ''}''"

definition vendor :: "(exn + response) \<Rightarrow> externals" where
  "vendor r = \<lparr>py_repr = repr_plain, create_tweet = (\<lambda>c t served. (served @ [(c, t)], r))\<rparr>"

definition world0 :: world where
  "world0 =
     \<lparr>environ = Map.empty, dotenv_file = Map.empty, filters = [], filters_version = 0,
      modules = {}, tweepy_loads = {}, log = [], calls = []\<rparr>"

definition env_all :: "string \<rightharpoonup> string" where
  "env_all =
     [''TWITTER_API_KEY'' \<mapsto> ''key'', ''TWITTER_API_SECRET'' \<mapsto> ''secret'',
      ''TWITTER_ACCESS_TOKEN'' \<mapsto> ''token'', ''TWITTER_ACCESS_TOKEN_SECRET'' \<mapsto> ''token-secret'']"

definition adapter0 :: "unit adapter" where
  "adapter0 = \<lparr>base = (), client = client_of env_all\<rparr>"

definition hello :: tweet_input where
  "hello = \<lparr>action = ''hello''\<rparr>"

section \<open>Facts about construction\<close>

lemma missing_vars_absent:
  "missing_vars (e ''TWITTER_API_KEY'') (e ''TWITTER_API_SECRET'') (e ''TWITTER_ACCESS_TOKEN'')
      (e ''TWITTER_ACCESS_TOKEN_SECRET'') = absent e"
  by (simp add: missing_vars_def absent_def required_credentials_def)

lemma all_truthy_absent:
  "list_all truthy [e ''TWITTER_API_KEY'', e ''TWITTER_API_SECRET'', e ''TWITTER_ACCESS_TOKEN'',
      e ''TWITTER_ACCESS_TOKEN_SECRET''] \<longleftrightarrow> absent e = []"
  by (simp add: absent_def required_credentials_def)

lemma absent_Nil_iff:
  "absent e = [] \<longleftrightarrow> (\<forall>n \<in> set required_credentials. \<exists>v. e n = Some v \<and> v \<noteq> [])"
proof -
  have "truthy x \<longleftrightarrow> (\<exists>v. x = Some v \<and> v \<noteq> [])" for x
    by (cases x) simp_all
  then show ?thesis
    by (simp add: absent_def filter_empty_conv)
qed

lemma environ_load_dotenv: "environ (load_dotenv w) = dotenv_file w ++ environ w"
  by (simp add: load_dotenv_def)

lemma environ_in_block:
  "environ (import_tweepy (filterwarnings a c (catch_warnings_enter (load_dotenv w)))) =
     dotenv_file w ++ environ w"
  by (simp add: import_tweepy_def filterwarnings_def catch_warnings_enter_def filters_mutated_def
      load_dotenv_def)

text \<open>The world after construction, the same whether it raises or returns.\<close>

lemma fst_init:
  "fst (init si cfg w) =
     catch_warnings_exit (filters w)
       (import_tweepy (filterwarnings ''ignore'' ''SyntaxWarning''
          (catch_warnings_enter (load_dotenv w))))"
  by (simp add: init_def Let_def load_dotenv_def)

lemma environ_init: "environ (fst (init si cfg w)) = environ (load_dotenv w)"
  by (simp add: fst_init catch_warnings_exit_def import_tweepy_def filterwarnings_def
      catch_warnings_enter_def filters_mutated_def load_dotenv_def)






lemma log_init: "log (fst (init si cfg w)) = log w"
  by (simp add: fst_init catch_warnings_exit_def import_tweepy_def filterwarnings_def
      catch_warnings_enter_def filters_mutated_def load_dotenv_def)

lemma calls_init: "calls (fst (init si cfg w)) = calls w"
  by (simp add: fst_init catch_warnings_exit_def import_tweepy_def filterwarnings_def
      catch_warnings_enter_def filters_mutated_def load_dotenv_def)

lemma snd_init:
  "snd (init si cfg w) =
     (if absent (environ (load_dotenv w)) = [] then
        Inr \<lparr>base = si cfg, client = client_of (environ (load_dotenv w))\<rparr>
      else Inl (Exn ValueError (''Missing required Twitter API credentials: ''
                  @ join '', '' (absent (environ (load_dotenv w))))))"
  unfolding init_def Let_def getenv_def environ_in_block all_truthy_absent missing_vars_absent
    environ_load_dotenv client_of_def
  by simp

lemma init_Inr:
  assumes "init si cfg w = (w', Inr a)"
  shows "environ w' = environ (load_dotenv w) \<and> client a = client_of (environ w')
       \<and> absent (environ w') = []"
proof -
  from assms have f: "fst (init si cfg w) = w'" and s: "snd (init si cfg w) = Inr a"
    by simp_all
  from f have w': "environ w' = environ (load_dotenv w)"
    using environ_init [of si cfg w] by simp
  from s show ?thesis unfolding w' snd_init by (auto split: if_splits)
qed

lemma step_configured:
  assumes "step si X w s ev w' s'" and "configured s"
  shows "configured s'"
  using assms
proof (induction rule: step.induct)
  case (construct_ok cfg w w' a)
  from init_Inr [OF construct_ok(1)] show ?case
    by (auto simp: absent_Nil_iff)
qed simp_all

lemma env_all_simps:
  "env_all ''TWITTER_API_KEY'' = Some ''key''"
  "env_all ''TWITTER_API_SECRET'' = Some ''secret''"
  "env_all ''TWITTER_ACCESS_TOKEN'' = Some ''token''"
  "env_all ''TWITTER_ACCESS_TOKEN_SECRET'' = Some ''token-secret''"
  by (simp_all add: env_all_def)

lemma absent_env_all: "absent env_all = []"
  by (simp add: absent_def required_credentials_def env_all_simps)

lemma absent_empty: "absent Map.empty = required_credentials"
  by (simp add: absent_def required_credentials_def)

lemma absent_two_removed:
  "absent (env_all(''TWITTER_API_SECRET'' := None, ''TWITTER_ACCESS_TOKEN'' \<mapsto> [])) =
     [''TWITTER_API_SECRET'', ''TWITTER_ACCESS_TOKEN'']"
  by (simp add: absent_def required_credentials_def env_all_simps)

text \<open>With nothing set, the message names all four credentials in the order of the tests.\<close>

lemma init_empty_environment:
  "snd (init (\<lambda>c. c) () world0) =
     Inl (Exn ValueError
       (''Missing required Twitter API credentials: '' @
        ''TWITTER_API_KEY, TWITTER_API_SECRET, TWITTER_ACCESS_TOKEN, TWITTER_ACCESS_TOKEN_SECRET''))"
  by (simp add: snd_init load_dotenv_def world0_def absent_def required_credentials_def)

section \<open>Claims about construction\<close>

text \<open>
  Claim C1, as stated: whenever some of the four credentials are missing from the
  environment, construction raises an error that lists them. It does not when the
  \<^verbatim>\<open>.env\<close> file supplies them: line 29 calls \<^verbatim>\<open>load_dotenv()\<close> before the values
  are read. With an empty process environment, where all four credentials are
  missing, and a \<^verbatim>\<open>.env\<close> file that defines the four, construction raises nothing and
  returns an adapter.
\<close>

theorem dotenv_supplies_missing_credentials:
  "absent (environ (world0\<lparr>dotenv_file := env_all\<rparr>)) =
     [''TWITTER_API_KEY'', ''TWITTER_API_SECRET'', ''TWITTER_ACCESS_TOKEN'',
      ''TWITTER_ACCESS_TOKEN_SECRET'']
   \<and> snd (init (\<lambda>c. c) () (world0\<lparr>dotenv_file := env_all\<rparr>)) = Inr adapter0"
proof -
  have e: "environ (world0\<lparr>dotenv_file := env_all\<rparr>) = Map.empty"
    by (simp add: world0_def)
  have l: "environ (load_dotenv (world0\<lparr>dotenv_file := env_all\<rparr>)) = env_all"
    by (simp add: load_dotenv_def world0_def)
  show ?thesis
    unfolding e snd_init l
    by (simp add: absent_empty absent_env_all required_credentials_def adapter0_def)
qed

text \<open>
  Claim C1, amended. The environment that counts is the one \<^verbatim>\<open>os.getenv\<close> reads in
  lines 37 to 40, after \<^verbatim>\<open>load_dotenv()\<close>: a variable that is set in the process
  environment has its value there, even an empty one, and a variable that is not set
  has the value the \<^verbatim>\<open>.env\<close> file gives it, if any. Whenever at least one of the four
  required credentials is unset or empty in that environment, construction raises
  \<^verbatim>\<open>ValueError\<close>. The names its message lists are exactly the required names whose
  value is unset or empty, and no others, in the order \<^verbatim>\<open>TWITTER_API_KEY\<close>,
  \<^verbatim>\<open>TWITTER_API_SECRET\<close>, \<^verbatim>\<open>TWITTER_ACCESS_TOKEN\<close>, \<^verbatim>\<open>TWITTER_ACCESS_TOKEN_SECRET\<close>,
  separated by a comma and a space, after the fixed prefix. The message is written
  out below for each of the fifteen sets of absent credentials; in particular, when
  only the access token is absent the message names \<^verbatim>\<open>TWITTER_ACCESS_TOKEN\<close> alone.
\<close>

theorem missing_credentials_listed:
  assumes "absent (environ (load_dotenv w)) \<noteq> []"
  shows "(\<forall>n. environ (load_dotenv w) n =
            (case environ w n of Some v \<Rightarrow> Some v | None \<Rightarrow> dotenv_file w n))
       \<and> set (absent (environ (load_dotenv w))) =
           {n \<in> set required_credentials. \<forall>v. environ (load_dotenv w) n = Some v \<longrightarrow> v = []}
       \<and> subseq (absent (environ (load_dotenv w))) required_credentials
       \<and> snd (init si cfg w) =
           Inl (Exn ValueError (''Missing required Twitter API credentials: ''
                  @ join '', '' (absent (environ (load_dotenv w)))))
       \<and> (absent (environ (load_dotenv w)) = [''TWITTER_API_KEY''] \<longrightarrow>
          snd (init si cfg w) = Inl (Exn ValueError
            ''Missing required Twitter API credentials: TWITTER_API_KEY'')) \<and>
       (absent (environ (load_dotenv w)) = [''TWITTER_API_SECRET''] \<longrightarrow>
          snd (init si cfg w) = Inl (Exn ValueError
            ''Missing required Twitter API credentials: TWITTER_API_SECRET'')) \<and>
       (absent (environ (load_dotenv w)) = [''TWITTER_ACCESS_TOKEN''] \<longrightarrow>
          snd (init si cfg w) = Inl (Exn ValueError
            ''Missing required Twitter API credentials: TWITTER_ACCESS_TOKEN'')) \<and>
       (absent (environ (load_dotenv w)) = [''TWITTER_ACCESS_TOKEN_SECRET''] \<longrightarrow>
          snd (init si cfg w) = Inl (Exn ValueError
            ''Missing required Twitter API credentials: TWITTER_ACCESS_TOKEN_SECRET'')) \<and>
       (absent (environ (load_dotenv w)) = [''TWITTER_API_KEY'', ''TWITTER_API_SECRET''] \<longrightarrow>
          snd (init si cfg w) = Inl (Exn ValueError
            ''Missing required Twitter API credentials: TWITTER_API_KEY, TWITTER_API_SECRET'')) \<and>
       (absent (environ (load_dotenv w)) = [''TWITTER_API_KEY'', ''TWITTER_ACCESS_TOKEN''] \<longrightarrow>
          snd (init si cfg w) = Inl (Exn ValueError
            ''Missing required Twitter API credentials: TWITTER_API_KEY, TWITTER_ACCESS_TOKEN'')) \<and>
       (absent (environ (load_dotenv w)) = [''TWITTER_API_KEY'', ''TWITTER_ACCESS_TOKEN_SECRET''] \<longrightarrow>
          snd (init si cfg w) = Inl (Exn ValueError
            ''Missing required Twitter API credentials: TWITTER_API_KEY, TWITTER_ACCESS_TOKEN_SECRET'')) \<and>
       (absent (environ (load_dotenv w)) = [''TWITTER_API_SECRET'', ''TWITTER_ACCESS_TOKEN''] \<longrightarrow>
          snd (init si cfg w) = Inl (Exn ValueError
            ''Missing required Twitter API credentials: TWITTER_API_SECRET, TWITTER_ACCESS_TOKEN'')) \<and>
       (absent (environ (load_dotenv w)) = [''TWITTER_API_SECRET'', ''TWITTER_ACCESS_TOKEN_SECRET''] \<longrightarrow>
          snd (init si cfg w) = Inl (Exn ValueError
            ''Missing required Twitter API credentials: TWITTER_API_SECRET, TWITTER_ACCESS_TOKEN_SECRET'')) \<and>
       (absent (environ (load_dotenv w)) = [''TWITTER_ACCESS_TOKEN'', ''TWITTER_ACCESS_TOKEN_SECRET''] \<longrightarrow>
          snd (init si cfg w) = Inl (Exn ValueError
            ''Missing required Twitter API credentials: TWITTER_ACCESS_TOKEN, TWITTER_ACCESS_TOKEN_SECRET'')) \<and>
       (absent (environ (load_dotenv w)) = [''TWITTER_API_KEY'', ''TWITTER_API_SECRET'', ''TWITTER_ACCESS_TOKEN''] \<longrightarrow>
          snd (init si cfg w) = Inl (Exn ValueError
            ''Missing required Twitter API credentials: TWITTER_API_KEY, TWITTER_API_SECRET, TWITTER_ACCESS_TOKEN'')) \<and>
       (absent (environ (load_dotenv w)) = [''TWITTER_API_KEY'', ''TWITTER_API_SECRET'', ''TWITTER_ACCESS_TOKEN_SECRET''] \<longrightarrow>
          snd (init si cfg w) = Inl (Exn ValueError
            ''Missing required Twitter API credentials: TWITTER_API_KEY, TWITTER_API_SECRET, TWITTER_ACCESS_TOKEN_SECRET'')) \<and>
       (absent (environ (load_dotenv w)) = [''TWITTER_API_KEY'', ''TWITTER_ACCESS_TOKEN'', ''TWITTER_ACCESS_TOKEN_SECRET''] \<longrightarrow>
          snd (init si cfg w) = Inl (Exn ValueError
            ''Missing required Twitter API credentials: TWITTER_API_KEY, TWITTER_ACCESS_TOKEN, TWITTER_ACCESS_TOKEN_SECRET'')) \<and>
       (absent (environ (load_dotenv w)) = [''TWITTER_API_SECRET'', ''TWITTER_ACCESS_TOKEN'', ''TWITTER_ACCESS_TOKEN_SECRET''] \<longrightarrow>
          snd (init si cfg w) = Inl (Exn ValueError
            ''Missing required Twitter API credentials: TWITTER_API_SECRET, TWITTER_ACCESS_TOKEN, TWITTER_ACCESS_TOKEN_SECRET'')) \<and>
       (absent (environ (load_dotenv w)) = [''TWITTER_API_KEY'', ''TWITTER_API_SECRET'', ''TWITTER_ACCESS_TOKEN'', ''TWITTER_ACCESS_TOKEN_SECRET''] \<longrightarrow>
          snd (init si cfg w) = Inl (Exn ValueError
            ''Missing required Twitter API credentials: TWITTER_API_KEY, TWITTER_API_SECRET, TWITTER_ACCESS_TOKEN, TWITTER_ACCESS_TOKEN_SECRET''))"
proof -
  let ?e = "environ (load_dotenv w)"
  have merged: "\<forall>n. ?e n = (case environ w n of Some v \<Rightarrow> Some v | None \<Rightarrow> dotenv_file w n)"
    by (simp add: load_dotenv_def map_add_def split: option.split)
  have falsy: "\<not> truthy x \<longleftrightarrow> (\<forall>v. x = Some v \<longrightarrow> v = [])" for x
    by (cases x) simp_all
  have exact: "set (absent ?e) = {n \<in> set required_credentials. \<forall>v. ?e n = Some v \<longrightarrow> v = []}"
    unfolding absent_def set_filter falsy ..
  have ordered: "subseq (absent ?e) required_credentials"
    unfolding absent_def by (rule subseq_filter_left)
  have msg: "snd (init si cfg w) =
      Inl (Exn ValueError (''Missing required Twitter API credentials: '' @ join '', '' (absent ?e)))"
    using assms by (simp add: snd_init)
  have t0: "(absent (?e) = [''TWITTER_API_KEY''] \<longrightarrow> snd (init si cfg w) = Inl (Exn ValueError   ''Missing required Twitter API credentials: TWITTER_API_KEY''))"
    by (simp add: snd_init)
  have t1: "(absent (?e) = [''TWITTER_API_SECRET''] \<longrightarrow> snd (init si cfg w) = Inl (Exn ValueError   ''Missing required Twitter API credentials: TWITTER_API_SECRET''))"
    by (simp add: snd_init)
  have t2: "(absent (?e) = [''TWITTER_ACCESS_TOKEN''] \<longrightarrow> snd (init si cfg w) = Inl (Exn ValueError   ''Missing required Twitter API credentials: TWITTER_ACCESS_TOKEN''))"
    by (simp add: snd_init)
  have t3: "(absent (?e) = [''TWITTER_ACCESS_TOKEN_SECRET''] \<longrightarrow> snd (init si cfg w) = Inl (Exn ValueError   ''Missing required Twitter API credentials: TWITTER_ACCESS_TOKEN_SECRET''))"
    by (simp add: snd_init)
  have t4: "(absent (?e) = [''TWITTER_API_KEY'', ''TWITTER_API_SECRET''] \<longrightarrow> snd (init si cfg w) = Inl (Exn ValueError   ''Missing required Twitter API credentials: TWITTER_API_KEY, TWITTER_API_SECRET''))"
    by (simp add: snd_init)
  have t5: "(absent (?e) = [''TWITTER_API_KEY'', ''TWITTER_ACCESS_TOKEN''] \<longrightarrow> snd (init si cfg w) = Inl (Exn ValueError   ''Missing required Twitter API credentials: TWITTER_API_KEY, TWITTER_ACCESS_TOKEN''))"
    by (simp add: snd_init)
  have t6: "(absent (?e) = [''TWITTER_API_KEY'', ''TWITTER_ACCESS_TOKEN_SECRET''] \<longrightarrow> snd (init si cfg w) = Inl (Exn ValueError   ''Missing required Twitter API credentials: TWITTER_API_KEY, TWITTER_ACCESS_TOKEN_SECRET''))"
    by (simp add: snd_init)
  have t7: "(absent (?e) = [''TWITTER_API_SECRET'', ''TWITTER_ACCESS_TOKEN''] \<longrightarrow> snd (init si cfg w) = Inl (Exn ValueError   ''Missing required Twitter API credentials: TWITTER_API_SECRET, TWITTER_ACCESS_TOKEN''))"
    by (simp add: snd_init)
  have t8: "(absent (?e) = [''TWITTER_API_SECRET'', ''TWITTER_ACCESS_TOKEN_SECRET''] \<longrightarrow> snd (init si cfg w) = Inl (Exn ValueError   ''Missing required Twitter API credentials: TWITTER_API_SECRET, TWITTER_ACCESS_TOKEN_SECRET''))"
    by (simp add: snd_init)
  have t9: "(absent (?e) = [''TWITTER_ACCESS_TOKEN'', ''TWITTER_ACCESS_TOKEN_SECRET''] \<longrightarrow> snd (init si cfg w) = Inl (Exn ValueError   ''Missing required Twitter API credentials: TWITTER_ACCESS_TOKEN, TWITTER_ACCESS_TOKEN_SECRET''))"
    by (simp add: snd_init)
  have t10: "(absent (?e) = [''TWITTER_API_KEY'', ''TWITTER_API_SECRET'', ''TWITTER_ACCESS_TOKEN''] \<longrightarrow> snd (init si cfg w) = Inl (Exn ValueError   ''Missing required Twitter API credentials: TWITTER_API_KEY, TWITTER_API_SECRET, TWITTER_ACCESS_TOKEN''))"
    by (simp add: snd_init)
  have t11: "(absent (?e) = [''TWITTER_API_KEY'', ''TWITTER_API_SECRET'', ''TWITTER_ACCESS_TOKEN_SECRET''] \<longrightarrow> snd (init si cfg w) = Inl (Exn ValueError   ''Missing required Twitter API credentials: TWITTER_API_KEY, TWITTER_API_SECRET, TWITTER_ACCESS_TOKEN_SECRET''))"
    by (simp add: snd_init)
  have t12: "(absent (?e) = [''TWITTER_API_KEY'', ''TWITTER_ACCESS_TOKEN'', ''TWITTER_ACCESS_TOKEN_SECRET''] \<longrightarrow> snd (init si cfg w) = Inl (Exn ValueError   ''Missing required Twitter API credentials: TWITTER_API_KEY, TWITTER_ACCESS_TOKEN, TWITTER_ACCESS_TOKEN_SECRET''))"
    by (simp add: snd_init)
  have t13: "(absent (?e) = [''TWITTER_API_SECRET'', ''TWITTER_ACCESS_TOKEN'', ''TWITTER_ACCESS_TOKEN_SECRET''] \<longrightarrow> snd (init si cfg w) = Inl (Exn ValueError   ''Missing required Twitter API credentials: TWITTER_API_SECRET, TWITTER_ACCESS_TOKEN, TWITTER_ACCESS_TOKEN_SECRET''))"
    by (simp add: snd_init)
  have t14: "(absent (?e) = [''TWITTER_API_KEY'', ''TWITTER_API_SECRET'', ''TWITTER_ACCESS_TOKEN'', ''TWITTER_ACCESS_TOKEN_SECRET''] \<longrightarrow> snd (init si cfg w) = Inl (Exn ValueError   ''Missing required Twitter API credentials: TWITTER_API_KEY, TWITTER_API_SECRET, TWITTER_ACCESS_TOKEN, TWITTER_ACCESS_TOKEN_SECRET''))"
    by (simp add: snd_init)
  from merged exact ordered msg t0 t1 t2 t3 t4 t5 t6 t7 t8 t9 t10 t11 t12 t13 t14
  show ?thesis by blast
qed

theorem missing_credentials_listed_witness:
  "absent (environ (load_dotenv
      (world0\<lparr>environ := env_all(''TWITTER_API_SECRET'' := None, ''TWITTER_ACCESS_TOKEN'' \<mapsto> [])\<rparr>)))
     = [''TWITTER_API_SECRET'', ''TWITTER_ACCESS_TOKEN'']
   \<and> snd (init (\<lambda>c. c) ()
      (world0\<lparr>environ := env_all(''TWITTER_API_SECRET'' := None, ''TWITTER_ACCESS_TOKEN'' \<mapsto> [])\<rparr>))
     = Inl (Exn ValueError
         ''Missing required Twitter API credentials: TWITTER_API_SECRET, TWITTER_ACCESS_TOKEN'')"
proof -
  let ?w = "world0\<lparr>environ := env_all(''TWITTER_API_SECRET'' := None, ''TWITTER_ACCESS_TOKEN'' \<mapsto> [])\<rparr>"
  have e: "environ (load_dotenv ?w) =
      env_all(''TWITTER_API_SECRET'' := None, ''TWITTER_ACCESS_TOKEN'' \<mapsto> [])"
    by (simp add: load_dotenv_def world0_def)
  have a: "absent (environ (load_dotenv ?w)) = [''TWITTER_API_SECRET'', ''TWITTER_ACCESS_TOKEN'']"
    unfolding e by (rule absent_two_removed)
  then have h: "absent (environ (load_dotenv ?w)) \<noteq> []" by simp
  from missing_credentials_listed [OF h, of "\<lambda>c. c" "()"] a show ?thesis by blast
qed

text \<open>
  Claim C5. Whenever each of the four credentials has a non-empty value in the
  environment that the constructor reads, construction returns an adapter whose client
  holds these four values, each of them non-empty, and no vendor call is made during
  construction: the record of \<^verbatim>\<open>create_tweet\<close> calls is what it was. The handle is an
  attribute of the object, and \<^verbatim>\<open>connect\<close> assigns no attribute.
\<close>

theorem construction_succeeds:
  assumes "\<forall>n \<in> set required_credentials. \<exists>v. environ (load_dotenv w) n = Some v \<and> v \<noteq> []"
  shows "snd (init si cfg w) = Inr \<lparr>base = si cfg, client = client_of (environ (load_dotenv w))\<rparr>
       \<and> truthy (consumer_key (client_of (environ (load_dotenv w))))
       \<and> truthy (consumer_secret (client_of (environ (load_dotenv w))))
       \<and> truthy (access_token (client_of (environ (load_dotenv w))))
       \<and> truthy (access_token_secret (client_of (environ (load_dotenv w))))
       \<and> calls (fst (init si cfg w)) = calls w"
proof -
  let ?e = "environ (load_dotenv w)"
  from assms have ok: "absent ?e = []" by (simp only: absent_Nil_iff)
  then have res: "snd (init si cfg w) = Inr \<lparr>base = si cfg, client = client_of ?e\<rparr>"
    by (simp add: snd_init)
  from ok have "list_all truthy [?e ''TWITTER_API_KEY'', ?e ''TWITTER_API_SECRET'',
      ?e ''TWITTER_ACCESS_TOKEN'', ?e ''TWITTER_ACCESS_TOKEN_SECRET'']"
    by (simp only: all_truthy_absent)
  then have usable: "truthy (consumer_key (client_of ?e))" "truthy (consumer_secret (client_of ?e))"
      "truthy (access_token (client_of ?e))" "truthy (access_token_secret (client_of ?e))"
    by (simp_all add: client_of_def)
  have quiet: "calls (fst (init si cfg w)) = calls w"
    by (rule calls_init)
  from res usable quiet show ?thesis by simp
qed

theorem construction_succeeds_witness:
  "map (environ (load_dotenv (world0\<lparr>environ := env_all\<rparr>))) required_credentials =
     [Some ''key'', Some ''secret'', Some ''token'', Some ''token-secret'']
   \<and> snd (init (\<lambda>c. c) () (world0\<lparr>environ := env_all\<rparr>)) = Inr adapter0
   \<and> calls (fst (init (\<lambda>c. c) () (world0\<lparr>environ := env_all\<rparr>))) = []"
proof -
  let ?w = "world0\<lparr>environ := env_all\<rparr>"
  have e: "environ (load_dotenv ?w) = env_all"
    by (simp add: load_dotenv_def world0_def)
  have vals: "map env_all required_credentials =
      [Some ''key'', Some ''secret'', Some ''token'', Some ''token-secret'']"
    by (simp add: required_credentials_def env_all_simps)
  have h: "\<forall>n \<in> set required_credentials. \<exists>v. environ (load_dotenv ?w) n = Some v \<and> v \<noteq> []"
    unfolding e by (simp add: required_credentials_def env_all_simps)
  have c: "calls ?w = []"
    by (simp add: world0_def)
  from construction_succeeds [OF h, of "\<lambda>c. c" "()"] vals show ?thesis
    unfolding e c adapter0_def by simp
qed




text \<open>
  Claim C6. In every state that the life cycle reaches, an adapter that is ready holds
  a client built from the four values that the constructor read, each of them set and
  not empty. Construction returns an adapter exactly when all four values are set and
  not empty in the environment it reads; otherwise it raises, no object and no client
  come into being, and the state stays uninitialised, where no send is possible.
\<close>

theorem client_only_when_configured:
  assumes "reachable si X w s"
  shows "configured s
       \<and> (\<forall>cfg w0. (\<exists>a. snd (init si cfg w0) = Inr a) \<longleftrightarrow>
             (\<forall>n \<in> set required_credentials. \<exists>v. environ (load_dotenv w0) n = Some v \<and> v \<noteq> []))
       \<and> (\<forall>oi w' s'. \<not> step si X w Uninitialized (Send oi) w' s')"
proof -
  from assms have inv: "configured s"
  proof (induction rule: reachable.induct)
    case (initial w)
    show ?case by simp
  next
    case (after w s ev w' s')
    then show ?case by (blast intro: step_configured)
  qed
  have built: "(\<exists>a. snd (init si cfg w0) = Inr a) \<longleftrightarrow>
      (\<forall>n \<in> set required_credentials. \<exists>v. environ (load_dotenv w0) n = Some v \<and> v \<noteq> [])" for cfg w0
    unfolding absent_Nil_iff [symmetric] by (simp add: snd_init)
  have refused: "\<not> step si X w Uninitialized (Send oi) w' s'" for oi w' s'
    by (auto elim: step.cases)
  from inv built refused show ?thesis by blast
qed

theorem client_only_when_configured_witness:
  "reachable (\<lambda>c. c) (vendor (Inl (Exn TweepyException ''403 Forbidden'')))
      (fst (connect module_globals (vendor (Inl (Exn TweepyException ''403 Forbidden'')))
              adapter0 hello (fst (init (\<lambda>c. c) () (world0\<lparr>environ := env_all\<rparr>)))))
      (Ready adapter0 env_all)
   \<and> client adapter0 = client_of env_all
   \<and> map env_all required_credentials =
        [Some ''key'', Some ''secret'', Some ''token'', Some ''token-secret'']"
proof -
  let ?w = "world0\<lparr>environ := env_all\<rparr>"
  let ?X = "vendor (Inl (Exn TweepyException ''403 Forbidden''))"
  let ?w1 = "fst (init (\<lambda>c. c) () ?w)"
  let ?c = "connect module_globals ?X adapter0 hello ?w1"
  have e: "environ (load_dotenv ?w) = env_all"
    by (simp add: load_dotenv_def world0_def)
  have "init (\<lambda>c. c) () ?w = (?w1, snd (init (\<lambda>c. c) () ?w))"
    by simp
  also have "snd (init (\<lambda>c. c) () ?w) = Inr adapter0"
    unfolding snd_init e by (simp add: absent_env_all adapter0_def)
  finally have i: "init (\<lambda>c. c) () ?w = (?w1, Inr adapter0)" .
  have "step (\<lambda>c. c) ?X ?w Uninitialized (Construct ()) ?w1 (Ready adapter0 (environ ?w1))"
    using i by (rule step.construct_ok)
  then have s1: "step (\<lambda>c. c) ?X ?w Uninitialized (Construct ()) ?w1 (Ready adapter0 env_all)"
    by (simp add: environ_init e)
  have r1: "reachable (\<lambda>c. c) ?X ?w1 (Ready adapter0 env_all)"
    using reachable.initial s1 by (rule reachable.after)
  have "?c = (fst ?c, snd ?c)"
    by simp
  then have s2: "step (\<lambda>c. c) ?X ?w1 (Ready adapter0 env_all) (Send hello) (fst ?c) (Ready adapter0 env_all)"
    by (rule step.send)
  have r2: "reachable (\<lambda>c. c) ?X (fst ?c) (Ready adapter0 env_all)"
    using r1 s2 by (rule reachable.after)
  have vals: "map env_all required_credentials =
      [Some ''key'', Some ''secret'', Some ''token'', Some ''token-secret'']"
    by (simp add: required_credentials_def env_all_simps)
  from client_only_when_configured [OF r2] r2 vals show ?thesis by simp
qed

section \<open>Facts about sending\<close>

lemma tweepy_unbound: "''tweepy'' \<notin> set module_globals"
  by (simp add: module_globals_def)

text \<open>In the module as it stands, no \<^verbatim>\<open>except\<close> clause is ever entered.\<close>

lemma handlers_unbound:
  "handlers module_globals e w = (w, Inl (Exn NameError ''name 'tweepy' is not defined''))"
  using tweepy_unbound by (simp add: handlers_def)

text \<open>Were \<^verbatim>\<open>tweepy\<close> a global of the module, the clauses would log and raise again.\<close>

lemma handlers_bound:
  assumes "''tweepy'' \<in> set g"
  shows "handlers g e w =
     (if is_tweepy (cls e) then
        (logging_error (''Twitter API error while sending tweet: '' @ msg e) w, Inl e)
      else if is_exception (cls e) then
        (logging_error (''Unexpected error while sending tweet: '' @ msg e) w, Inl e)
      else (w, Inl e))"
  using assms by (simp add: handlers_def)

lemma handlers_calls: "calls (fst (handlers g e w)) = calls w"
  by (simp add: handlers_def logging_error_def)

text \<open>The service after the body is the service after one application of the vendor.\<close>

lemma try_body_calls:
  "calls (fst (try_body X a oi w)) = fst (create_tweet X (client a) (action oi) (calls w))"
  by (simp add: try_body_def Let_def logging_info_def case_prod_beta split: sum.split)

lemma try_body_success:
  assumes "snd (create_tweet X (client a) (action oi) (calls w)) = Inr r"
      and "subscript X (data r) ''id'' = Inr tid"
  shows "try_body X a oi w =
     (w\<lparr>log := log w @
           [(INFO, ''SendThisToTwitterAPI: '' @ py_repr X (PyDict [(''action'', PyStr (action oi))])),
            (INFO, ''Tweet sent successfully! URL: https://twitter.com/user/status/'' @ py_str X tid)],
         calls := fst (create_tweet X (client a) (action oi) (calls w))\<rparr>, Inr ())"
  using assms by (simp add: try_body_def Let_def logging_info_def case_prod_beta)

lemma try_body_vendor_raises:
  assumes "snd (create_tweet X (client a) (action oi) (calls w)) = Inl e"
  shows "try_body X a oi w =
     (w\<lparr>log := log w @
           [(INFO, ''SendThisToTwitterAPI: '' @ py_repr X (PyDict [(''action'', PyStr (action oi))]))],
         calls := fst (create_tweet X (client a) (action oi) (calls w))\<rparr>, Inl e)"
  using assms by (simp add: try_body_def Let_def logging_info_def case_prod_beta)

lemma try_body_no_id:
  assumes "snd (create_tweet X (client a) (action oi) (calls w)) = Inr r"
      and "subscript X (data r) ''id'' = Inl e"
  shows "try_body X a oi w =
     (w\<lparr>log := log w @
           [(INFO, ''SendThisToTwitterAPI: '' @ py_repr X (PyDict [(''action'', PyStr (action oi))]))],
         calls := fst (create_tweet X (client a) (action oi) (calls w))\<rparr>, Inl e)"
  using assms by (simp add: try_body_def Let_def logging_info_def case_prod_beta)

text \<open>
  Whatever the body raises, \<^verbatim>\<open>connect\<close> raises \<^verbatim>\<open>NameError\<close> in its place and logs
  nothing more.
\<close>

lemma connect_body_raises:
  assumes "try_body X a oi w = (w', Inl e)"
  shows "connect module_globals X a oi w =
     (w', Inl (Exn NameError ''name 'tweepy' is not defined''))"
  using assms by (simp add: connect_def handlers_unbound)

text \<open>What the two clauses would do in a module that binds \<^verbatim>\<open>tweepy\<close>.\<close>

lemma connect_body_raises_bound:
  assumes "try_body X a oi w = (w', Inl e)" and "''tweepy'' \<in> set g"
  shows "connect g X a oi w =
     (if is_tweepy (cls e) then
        (logging_error (''Twitter API error while sending tweet: '' @ msg e) w', Inl e)
      else if is_exception (cls e) then
        (logging_error (''Unexpected error while sending tweet: '' @ msg e) w', Inl e)
      else (w', Inl e))"
  using assms by (simp add: connect_def handlers_bound)

lemma vendor_simps:
  "py_repr (vendor r) = repr_plain"
  "fst (create_tweet (vendor r) c t served) = served @ [(c, t)]"
  "snd (create_tweet (vendor r) c t served) = r"
  by (simp_all add: vendor_def)

section \<open>Claims about sending\<close>

text \<open>
  Claim C2. Whenever the vendor call returns a response whose data is a dict with an
  \<^verbatim>\<open>id\<close>, \<^verbatim>\<open>connect\<close> returns \<^verbatim>\<open>None\<close> and logs two info lines: the announcement of
  the text, and the success line, which ends in the public URL
  \<^verbatim>\<open>https://twitter.com/user/status/\<close> followed by the identifier of the response: the
  identifier itself when it is a string, and what \<^verbatim>\<open>repr\<close> prints for it otherwise.
  For every string identifier \<open>s\<close> the line ends in \<^verbatim>\<open>/status/\<close> followed by \<open>s\<close>; for
  the identifier \<^verbatim>\<open>"123"\<close> it ends in \<^verbatim>\<open>/status/123\<close>. This holds whatever the globals
  of the module are.
\<close>

theorem success_url_logged:
  assumes "snd (create_tweet X (client a) (action oi) (calls w)) = Inr r"
      and "data r = PyDict d"
      and "map_of d ''id'' = Some tid"
  shows "snd (connect g X a oi w) = Inr ()
       \<and> log (fst (connect g X a oi w)) = log w @
           [(INFO, ''SendThisToTwitterAPI: '' @ py_repr X (PyDict [(''action'', PyStr (action oi))])),
            (INFO, ''Tweet sent successfully! URL: https://twitter.com/user/status/'' @
                     (case tid of PyStr s \<Rightarrow> s | _ \<Rightarrow> py_repr X tid))]
       \<and> (\<forall>s. tid = PyStr s \<longrightarrow>
            last (log (fst (connect g X a oi w))) =
              (INFO, ''Tweet sent successfully! URL: https://twitter.com/user/status/'' @ s)
            \<and> suffix (''/status/'' @ s) (snd (last (log (fst (connect g X a oi w))))))
       \<and> (tid = PyStr ''123'' \<longrightarrow>
            last (log (fst (connect g X a oi w))) =
              (INFO, ''Tweet sent successfully! URL: https://twitter.com/user/status/123'')
            \<and> suffix ''/status/123'' (snd (last (log (fst (connect g X a oi w))))))"
proof -
  from assms(2,3) have id: "subscript X (data r) ''id'' = Inr tid"
    by simp
  have str: "py_str X tid = (case tid of PyStr s \<Rightarrow> s | _ \<Rightarrow> py_repr X tid)"
    by (cases tid) simp_all
  have run: "connect g X a oi w =
     (w\<lparr>log := log w @
           [(INFO, ''SendThisToTwitterAPI: '' @ py_repr X (PyDict [(''action'', PyStr (action oi))])),
            (INFO, ''Tweet sent successfully! URL: https://twitter.com/user/status/'' @
                     (case tid of PyStr s \<Rightarrow> s | _ \<Rightarrow> py_repr X tid))],
         calls := fst (create_tweet X (client a) (action oi) (calls w))\<rparr>, Inr ())"
    by (simp add: connect_def try_body_success [OF assms(1) id] str)
  have ends: "suffix (''/status/'' @ s)
      (''Tweet sent successfully! URL: https://twitter.com/user/status/'' @ s)" for s
  proof -
    have "suffix (''/status/'' @ s)
        (''Tweet sent successfully! URL: https://twitter.com/user'' @ (''/status/'' @ s))"
      by (rule suffix_appendI) (rule suffix_order.refl)
    then show ?thesis by simp
  qed
  have first: "snd (connect g X a oi w) = Inr ()"
    by (simp add: run)
  have lines: "log (fst (connect g X a oi w)) = log w @
      [(INFO, ''SendThisToTwitterAPI: '' @ py_repr X (PyDict [(''action'', PyStr (action oi))])),
       (INFO, ''Tweet sent successfully! URL: https://twitter.com/user/status/'' @
                (case tid of PyStr s \<Rightarrow> s | _ \<Rightarrow> py_repr X tid))]"
    by (simp add: run)
  have general: "\<forall>s. tid = PyStr s \<longrightarrow>
      last (log (fst (connect g X a oi w))) =
        (INFO, ''Tweet sent successfully! URL: https://twitter.com/user/status/'' @ s)
      \<and> suffix (''/status/'' @ s) (snd (last (log (fst (connect g X a oi w)))))"
    using ends by (simp add: lines)
  have special: "tid = PyStr ''123'' \<longrightarrow>
      last (log (fst (connect g X a oi w))) =
        (INFO, ''Tweet sent successfully! URL: https://twitter.com/user/status/123'')
      \<and> suffix ''/status/123'' (snd (last (log (fst (connect g X a oi w)))))"
    using ends [of "''123''"] by (simp add: lines)
  from first lines general special show ?thesis by blast
qed

theorem success_url_logged_witness:
  "snd (connect module_globals
          (vendor (Inr \<lparr>data = PyDict [(''id'', PyStr ''1789''), (''text'', PyStr ''hello'')]\<rparr>))
          adapter0 hello world0) = Inr ()
   \<and> log (fst (connect module_globals
          (vendor (Inr \<lparr>data = PyDict [(''id'', PyStr ''1789''), (''text'', PyStr ''hello'')]\<rparr>))
          adapter0 hello world0)) =
       [(INFO, ''SendThisToTwitterAPI: {'action': 'hello'}''),
        (INFO, ''Tweet sent successfully! URL: https://twitter.com/user/status/1789'')]"
proof -
  let ?r = "\<lparr>data = PyDict [(''id'', PyStr ''1789''), (''text'', PyStr ''hello'')]\<rparr>"
  have c: "snd (create_tweet (vendor (Inr ?r)) (client adapter0) (action hello) (calls world0)) = Inr ?r"
    by (simp add: vendor_simps)
  have d: "data ?r = PyDict [(''id'', PyStr ''1789''), (''text'', PyStr ''hello'')]"
    by simp
  have m: "map_of [(''id'', PyStr ''1789''), (''text'', PyStr ''hello'')] ''id'' = Some (PyStr ''1789'')"
    by simp
  from success_url_logged [OF c d m, of module_globals] show ?thesis
    by (simp add: vendor_simps hello_def world0_def)
qed

text \<open>
  Claim C3, at a failing input: the vendor call raises
  \<^verbatim>\<open>TweepyException("403 Forbidden")\<close>. The claim has \<^verbatim>\<open>connect\<close> log an error line
  with that message and raise the same exception again. The code logs the
  announcement only, no error line, and raises
  \<^verbatim>\<open>NameError("name 'tweepy' is not defined")\<close>: the search for a handler evaluates
  \<^verbatim>\<open>tweepy.TweepyException\<close> in line 85, and \<^verbatim>\<open>tweepy\<close> is a local name of
  \<^verbatim>\<open>__init__\<close>, not a global of the module.
\<close>

theorem vendor_exception_replaced:
  "connect module_globals (vendor (Inl (Exn TweepyException ''403 Forbidden''))) adapter0 hello world0 =
     (world0\<lparr>log := [(INFO, ''SendThisToTwitterAPI: {'action': 'hello'}'')],
             calls := [(client adapter0, ''hello'')]\<rparr>,
      Inl (Exn NameError ''name 'tweepy' is not defined''))"
proof -
  let ?X = "vendor (Inl (Exn TweepyException ''403 Forbidden''))"
  have c: "snd (create_tweet ?X (client adapter0) (action hello) (calls world0)) =
      Inl (Exn TweepyException ''403 Forbidden'')"
    by (simp add: vendor_simps)
  show ?thesis
    unfolding connect_body_raises [OF try_body_vendor_raises [OF c]] vendor_simps
    by (simp add: world0_def hello_def)
qed

text \<open>
  Claim C4, at a failing input: the vendor call raises \<^verbatim>\<open>RuntimeError("boom")\<close>, an
  exception that is not the vendor's. The claim has \<^verbatim>\<open>connect\<close> log it on the generic
  path (line 89) and raise it again unchanged. The code logs no error line and raises
  \<^verbatim>\<open>NameError("name 'tweepy' is not defined")\<close> in its place, for the reason given
  at claim C3: the failure is not swallowed, but it is neither logged nor the one the
  caller receives.
\<close>

theorem other_exception_replaced:
  "connect module_globals (vendor (Inl (Exn (OtherException ''RuntimeError'') ''boom''))) adapter0 hello
      world0 =
     (world0\<lparr>log := [(INFO, ''SendThisToTwitterAPI: {'action': 'hello'}'')],
             calls := [(client adapter0, ''hello'')]\<rparr>,
      Inl (Exn NameError ''name 'tweepy' is not defined''))"
proof -
  let ?X = "vendor (Inl (Exn (OtherException ''RuntimeError'') ''boom''))"
  have c: "snd (create_tweet ?X (client adapter0) (action hello) (calls world0)) =
      Inl (Exn (OtherException ''RuntimeError'') ''boom'')"
    by (simp add: vendor_simps)
  show ?thesis
    unfolding connect_body_raises [OF try_body_vendor_raises [OF c]] vendor_simps
    by (simp add: world0_def hello_def)
qed

text \<open>
  Claim C7. A run of \<^verbatim>\<open>connect\<close> makes exactly one vendor call, whatever the outcome
  of the call and of the run: for every vendor, the state of its service after the run
  is the state that one application of \<^verbatim>\<open>create_tweet\<close> gives, applied to the state
  before the run, on the adapter's client, and with the \<^verbatim>\<open>action\<close> text of the message
  as the text to publish. So for a service that keeps every request it receives, the
  requests after the run are those before it and this one more: none when nothing is
  sent is excluded, and so is a second attempt.
\<close>

theorem single_vendor_call:
  "calls (fst (connect g X a oi w)) = fst (create_tweet X (client a) (action oi) (calls w))
   \<and> ((\<forall>c t served. fst (create_tweet X c t served) = served @ [(c, t)]) \<longrightarrow>
        calls (fst (connect g X a oi w)) = calls w @ [(client a, action oi)]
        \<and> length (calls (fst (connect g X a oi w))) = Suc (length (calls w)))"
proof -
  have once: "calls (fst (connect g X a oi w)) = fst (create_tweet X (client a) (action oi) (calls w))"
  proof (cases "try_body X a oi w")
    case (Pair w' r)
    then have c: "calls w' = fst (create_tweet X (client a) (action oi) (calls w))"
      using try_body_calls [of X a oi w] by simp
    show ?thesis
    proof (cases r)
      case (Inl e)
      with Pair c show ?thesis by (simp add: connect_def handlers_calls)
    next
      case (Inr u)
      with Pair c show ?thesis by (simp add: connect_def)
    qed
  qed
  then show ?thesis by simp
qed

theorem single_vendor_call_witness:
  "(\<forall>c t served.
      fst (create_tweet (vendor (Inl (Exn (TweepySub ''TooManyRequests'') ''429''))) c t served) =
        served @ [(c, t)])
   \<and> calls (fst (connect module_globals (vendor (Inl (Exn (TweepySub ''TooManyRequests'') ''429'')))
        adapter0 hello (world0\<lparr>calls := [(client adapter0, ''earlier'')]\<rparr>))) =
       [(client adapter0, ''earlier''), (client adapter0, ''hello'')]"
proof -
  let ?X = "vendor (Inl (Exn (TweepySub ''TooManyRequests'') ''429''))"
  have h: "\<forall>c t served. fst (create_tweet ?X c t served) = served @ [(c, t)]"
    by (simp add: vendor_simps)
  from single_vendor_call
    [of module_globals ?X adapter0 hello "world0\<lparr>calls := [(client adapter0, ''earlier'')]\<rparr>"] h
  show ?thesis by (simp add: hello_def)
qed

text \<open>
  Claim C8. The lines logged do not depend on the credentials. Take two runs of
  \<^verbatim>\<open>connect\<close> on the same message, with any two adapters (so any two sets of
  credentials in their clients) and in any two worlds (so any two environments) whose
  logs agree; if the vendor call has the same outcome in both, the two runs leave the
  same log and have the same result. Construction logs nothing, whatever the
  environment holds, so two constructions from worlds whose logs agree leave logs that
  agree.
\<close>

theorem log_independent_of_credentials:
  assumes "log w = log w'"
      and "snd (create_tweet X (client a) (action oi) (calls w)) =
           snd (create_tweet X (client a') (action oi) (calls w'))"
  shows "log (fst (connect g X a oi w)) = log (fst (connect g X a' oi w'))
       \<and> snd (connect g X a oi w) = snd (connect g X a' oi w')
       \<and> log (fst (init si cfg w)) = log w
       \<and> log (fst (init si cfg w)) = log (fst (init si cfg w'))"
proof -
  have body: "log (fst (try_body X a oi w)) = log (fst (try_body X a' oi w'))
      \<and> snd (try_body X a oi w) = snd (try_body X a' oi w')"
    using assms
    by (simp add: try_body_def Let_def logging_info_def case_prod_beta split: sum.split)
  have hand: "log u = log u' \<Longrightarrow> log (fst (handlers g e u)) = log (fst (handlers g e u'))
      \<and> snd (handlers g e u) = snd (handlers g e u')" for e u u'
    by (simp add: handlers_def logging_error_def)
  have conn: "log (fst (connect g X a oi w)) = log (fst (connect g X a' oi w'))
      \<and> snd (connect g X a oi w) = snd (connect g X a' oi w')"
  proof (cases "try_body X a oi w")
    case l: (Pair u r)
    show ?thesis
    proof (cases "try_body X a' oi w'")
      case r: (Pair u' r')
      from body l r have eq: "log u = log u'" "r = r'" by simp_all
      show ?thesis
      proof (cases r)
        case (Inl e)
        with l r eq hand [of u u' e] show ?thesis by (auto simp: connect_def)
      next
        case (Inr v)
        with l r eq show ?thesis by (auto simp: connect_def)
      qed
    qed
  qed
  have quiet: "log (fst (init si cfg v)) = log v" for v
    by (rule log_init)
  from conn quiet [of w] quiet [of w'] assms(1) show ?thesis by simp
qed

theorem log_independent_of_credentials_witness:
  "log (fst (connect module_globals
          (vendor (Inr \<lparr>data = PyDict [(''id'', PyStr ''123'')]\<rparr>)) adapter0 hello
          (world0\<lparr>environ := env_all\<rparr>))) =
   log (fst (connect module_globals
          (vendor (Inr \<lparr>data = PyDict [(''id'', PyStr ''123'')]\<rparr>))
          (adapter0\<lparr>client := client_of (env_all(''TWITTER_API_KEY'' \<mapsto> ''other key''))\<rparr>) hello
          world0))
   \<and> log (fst (init (\<lambda>c. c) () (world0\<lparr>environ := env_all\<rparr>))) =
     log (fst (init (\<lambda>c. c) () world0))"
proof -
  let ?X = "vendor (Inr \<lparr>data = PyDict [(''id'', PyStr ''123'')]\<rparr>)"
  let ?a' = "adapter0\<lparr>client := client_of (env_all(''TWITTER_API_KEY'' \<mapsto> ''other key''))\<rparr>"
  have l: "log (world0\<lparr>environ := env_all\<rparr>) = log world0"
    by simp
  have c: "snd (create_tweet ?X (client adapter0) (action hello) (calls (world0\<lparr>environ := env_all\<rparr>))) =
      snd (create_tweet ?X (client ?a') (action hello) (calls world0))"
    by (simp add: vendor_simps)
  from log_independent_of_credentials [OF l c, of module_globals "\<lambda>c. c" "()"] show ?thesis
    by blast
qed

text \<open>
  Claim C10, at a failing input: the vendor call returns a response whose data is a
  dict without the key \<^verbatim>\<open>id\<close>. The call has been made, \<^verbatim>\<open>data["id"]\<close> raises
  \<^verbatim>\<open>KeyError\<close>, and no success line is logged, as the claim says. The claim has the
  exception take the generic path (an error line, then the same exception again). The
  code logs no error line and raises \<^verbatim>\<open>NameError("name 'tweepy' is not defined")\<close>, for
  the reason given at claim C3.
\<close>

theorem missing_id_replaced:
  "connect module_globals (vendor (Inr \<lparr>data = PyDict [(''text'', PyStr ''hello'')]\<rparr>)) adapter0 hello
      world0 =
     (world0\<lparr>log := [(INFO, ''SendThisToTwitterAPI: {'action': 'hello'}'')],
             calls := [(client adapter0, ''hello'')]\<rparr>,
      Inl (Exn NameError ''name 'tweepy' is not defined''))
   \<and> subscript (vendor (Inr \<lparr>data = PyDict [(''text'', PyStr ''hello'')]\<rparr>))
        (PyDict [(''text'', PyStr ''hello'')]) ''id'' = Inl (Exn KeyError (repr_plain (PyStr ''id'')))"
proof -
  let ?r = "\<lparr>data = PyDict [(''text'', PyStr ''hello'')]\<rparr>"
  let ?X = "vendor (Inr ?r)"
  have c: "snd (create_tweet ?X (client adapter0) (action hello) (calls world0)) = Inr ?r"
    by (simp add: vendor_simps)
  have k: "subscript ?X (data ?r) ''id'' = Inl (Exn KeyError (repr_plain (PyStr ''id'')))"
    by (simp add: vendor_simps)
  show ?thesis
    unfolding connect_body_raises [OF try_body_no_id [OF c k]] vendor_simps
    by (simp add: world0_def hello_def vendor_simps)
qed

end
